theory Spec2Isabelle
  imports Main
begin

section \<open>Data model\<close>

text \<open>
  The chat backend keeps four pieces of state: the in-process connection registry
  (\<open>ConnectionManager.active_connections\<close>, chat/routes.py), the Redis set
  \<open>online_users\<close> (redis_client.py), and the tables \<open>messages\<close>, \<open>groups\<close> and
  \<open>group_members\<close> (models/). User, message, group and membership ids are strings
  (UUID texts). A WebSocket object is identified by a number; the frames passed to its
  \<open>send_json\<close> are logged in \<open>sent_frames\<close>, oldest first.

  Tables are lists in insertion order, which is also the order of \<open>created_at\<close>.
  Foreign keys are not enforced (the default database is SQLite), primary keys are:
  an insert with an id that is already present raises.
\<close>

type_synonym user_id = string
type_synonym websocket = nat

datatype MessageStatus = SENT | DELIVERED | READ

datatype MessageType = TEXT | IMAGE | AUDIO | VIDEO | FILE

record Message =
  msg_id :: string
  sender_id :: user_id
  receiver_id :: "user_id option"
  group_id :: "string option"
  content :: string
  message_type :: MessageType
  file_url :: "string option"
  status :: MessageStatus

record Group =
  grp_id :: string
  grp_name :: string
  created_by :: user_id

record GroupMember =
  gm_id :: string
  gm_group_id :: string
  gm_user_id :: user_id
  is_admin :: bool

text \<open>Decoded JSON, as \<open>json.loads\<close> returns it.\<close>

datatype json =
    JNull
  | JBool bool
  | JNum int
  | JStr string
  | JArr "json list"
  | JObj "(string \<times> json) list"

text \<open>The text of one inbound WebSocket frame: either it decodes to a JSON value or it does not.\<close>

datatype text_data = NotJson | JsonText json

text \<open>The three outbound frame shapes built in \<open>websocket_endpoint\<close>.\<close>

datatype out_frame =
    MessageOut Message
  | TypingOut user_id json json
  | ReadReceiptOut json user_id

datatype error =
    JSONDecodeError
  | KeyError
  | TypeError
  | AttributeError
  | ValidationError
  | IntegrityError
  | StatementError
  | RedisError
  | HTTPException nat

text \<open>What a Python call returns when only \<open>None\<close> or a boolean can come back.\<close>

datatype py_value = PyNone | PyBool bool

record state =
  active_connections :: "user_id \<rightharpoonup> websocket"
  online_users :: "user_id set"
  redis_up :: bool
  messages :: "Message list"
  groups :: "Group list"
  group_members :: "GroupMember list"
  sent_frames :: "(websocket \<times> out_frame) list"

text \<open>
  \<open>redis_up\<close> says whether the Redis server answers; it belongs to the environment and
  no operation of the program changes it.
\<close>

section \<open>Presence store (redis\_client.py)\<close>

definition set_user_online :: "user_id \<Rightarrow> state \<Rightarrow> error + state" where
  "set_user_online user_id s =
     (if redis_up s then Inr (s\<lparr>online_users := insert user_id (online_users s)\<rparr>)
      else Inl RedisError)"

definition set_user_offline :: "user_id \<Rightarrow> state \<Rightarrow> error + state" where
  "set_user_offline user_id s =
     (if redis_up s then Inr (s\<lparr>online_users := online_users s - {user_id}\<rparr>)
      else Inl RedisError)"

definition is_user_online :: "user_id \<Rightarrow> state \<Rightarrow> error + bool" where
  "is_user_online user_id s =
     (if redis_up s then Inr (user_id \<in> online_users s) else Inl RedisError)"

section \<open>Connection registry (ConnectionManager, chat/routes.py)\<close>

text \<open>
  A handler that raises leaves the state as it was at the raise, so the handlers return
  the raised error, if any, together with the state reached.
\<close>

definition connect :: "websocket \<Rightarrow> user_id \<Rightarrow> state \<Rightarrow> error option \<times> state" where
  "connect websocket user_id s =
     (let s1 = s\<lparr>active_connections := (active_connections s)(user_id \<mapsto> websocket)\<rparr>
      in case set_user_online user_id s1 of
           Inl e \<Rightarrow> (Some e, s1)
         | Inr s2 \<Rightarrow> (None, s2))"

definition disconnect :: "user_id \<Rightarrow> state \<Rightarrow> error option \<times> state" where
  "disconnect user_id s =
     (let s1 = (if user_id \<in> dom (active_connections s)
                then s\<lparr>active_connections := (active_connections s)(user_id := None)\<rparr>
                else s)
      in case set_user_offline user_id s1 of
           Inl e \<Rightarrow> (Some e, s1)
         | Inr s2 \<Rightarrow> (None, s2))"

text \<open>\<open>send_personal_message\<close> has no \<open>return\<close> statement: it returns \<open>None\<close> on both paths.\<close>

definition send_personal_message :: "out_frame \<Rightarrow> user_id \<Rightarrow> state \<Rightarrow> py_value \<times> state" where
  "send_personal_message message user_id s =
     (case active_connections s user_id of
        Some ws \<Rightarrow> (PyNone, s\<lparr>sent_frames := sent_frames s @ [(ws, message)]\<rparr>)
      | None \<Rightarrow> (PyNone, s))"

text \<open>
  Sequencing of calls that may raise: the first error ends the computation. \<open>or_raise\<close>
  does the same inside a handler, where the error leaves with the state reached so far.
\<close>

definition bind_err :: "error + 'a \<Rightarrow> ('a \<Rightarrow> error + 'b) \<Rightarrow> error + 'b" where
  "bind_err r k = (case r of Inl e \<Rightarrow> Inl e | Inr x \<Rightarrow> k x)"

definition or_raise ::
  "error + 'a \<Rightarrow> state \<Rightarrow> ('a \<Rightarrow> error option \<times> state) \<Rightarrow> error option \<times> state" where
  "or_raise r s k = (case r of Inl e \<Rightarrow> (Some e, s) | Inr x \<Rightarrow> k x)"

section \<open>Decoding an inbound frame\<close>

fun json_loads :: "text_data \<Rightarrow> error + json" where
  "json_loads NotJson = Inl JSONDecodeError"
| "json_loads (JsonText j) = Inr j"

text \<open>\<open>d[k]\<close>: a missing key raises \<open>KeyError\<close>, a value that is no dict \<open>TypeError\<close>.\<close>

fun subscript :: "json \<Rightarrow> string \<Rightarrow> error + json" where
  "subscript (JObj kvs) k = (case map_of kvs k of None \<Rightarrow> Inl KeyError | Some v \<Rightarrow> Inr v)"
| "subscript _ k = Inl TypeError"

text \<open>\<open>d.get(k)\<close>: the value, or nothing where the key is absent (the caller supplies the default).\<close>

fun dict_get :: "json \<Rightarrow> string \<Rightarrow> error + json option" where
  "dict_get (JObj kvs) k = Inr (map_of kvs k)"
| "dict_get _ k = Inl AttributeError"

text \<open>Validation of the fields of \<open>MessageCreate\<close> (schemas/message.py).\<close>

fun validate_str :: "json \<Rightarrow> error + string" where
  "validate_str (JStr s) = Inr s"
| "validate_str _ = Inl ValidationError"

fun validate_optional_str :: "json option \<Rightarrow> error + string option" where
  "validate_optional_str None = Inr None"
| "validate_optional_str (Some JNull) = Inr None"
| "validate_optional_str (Some (JStr s)) = Inr (Some s)"
| "validate_optional_str (Some _) = Inl ValidationError"

fun validate_message_type :: "json option \<Rightarrow> error + MessageType" where
  "validate_message_type None = Inr TEXT"
| "validate_message_type (Some (JStr s)) =
     (if s = ''text'' then Inr TEXT
      else if s = ''image'' then Inr IMAGE
      else if s = ''audio'' then Inr AUDIO
      else if s = ''video'' then Inr VIDEO
      else if s = ''file'' then Inr FILE
      else Inl ValidationError)"
| "validate_message_type (Some _) = Inl ValidationError"

record MessageCreate =
  mc_content :: string
  mc_message_type :: MessageType
  mc_file_url :: "string option"
  mc_receiver_id :: "string option"
  mc_group_id :: "string option"

text \<open>
  Lines 66-72 of chat/routes.py: the five arguments are read from
  \<open>message_data["data"]\<close> in order, then validated.
\<close>

definition build_MessageCreate :: "json \<Rightarrow> error + MessageCreate" where
  "build_MessageCreate message_data =
     bind_err (subscript message_data ''data'') (\<lambda>d.
     bind_err (subscript d ''content'') (\<lambda>c.
     bind_err (dict_get d ''message_type'') (\<lambda>mt.
     bind_err (dict_get d ''file_url'') (\<lambda>fu.
     bind_err (dict_get d ''receiver_id'') (\<lambda>r.
     bind_err (dict_get d ''group_id'') (\<lambda>g.
     bind_err (validate_str c) (\<lambda>c'.
     bind_err (validate_message_type mt) (\<lambda>mt'.
     bind_err (validate_optional_str fu) (\<lambda>fu'.
     bind_err (validate_optional_str r) (\<lambda>r'.
     bind_err (validate_optional_str g) (\<lambda>g'.
       Inr \<lparr>mc_content = c', mc_message_type = mt', mc_file_url = fu',
            mc_receiver_id = r', mc_group_id = g'\<rparr>)))))))))))"

section \<open>The session handler (websocket\_endpoint, chat/routes.py)\<close>

text \<open>Python truth of an optional string: \<open>None\<close> and the empty string are false.\<close>

fun truthy :: "string option \<Rightarrow> bool" where
  "truthy None = False"
| "truthy (Some s) = (s \<noteq> [])"

text \<open>An assignment to \<open>status\<close> followed by \<open>db.commit()\<close>: an update of the row with that id.\<close>

definition update_status :: "string \<Rightarrow> MessageStatus \<Rightarrow> state \<Rightarrow> state" where
  "update_status i st s =
     s\<lparr>messages := map (\<lambda>m. if msg_id m = i then m\<lparr>status := st\<rparr> else m) (messages s)\<rparr>"

text \<open>The loop of lines 120-122 over \<open>group.members\<close>.\<close>

fun fan_out :: "out_frame \<Rightarrow> user_id \<Rightarrow> GroupMember list \<Rightarrow> state \<Rightarrow> state" where
  "fan_out response user [] s = s"
| "fan_out response user (member # rest) s =
     (if gm_user_id member \<noteq> user
      then fan_out response user rest (snd (send_personal_message response (gm_user_id member) s))
      else fan_out response user rest s)"

definition members_of :: "string \<Rightarrow> state \<Rightarrow> GroupMember list" where
  "members_of g s = filter (\<lambda>m. gm_group_id m = g) (group_members s)"

text \<open>
  Lines 64-125, the branch for \<open>"message"\<close>. \<open>new_uuid\<close> is what \<open>uuid.uuid4()\<close> returns.
  The response is built before the status can change, so it always carries \<open>sent\<close>.
\<close>

definition handle_message :: "user_id \<Rightarrow> json \<Rightarrow> string \<Rightarrow> state \<Rightarrow> error option \<times> state" where
  "handle_message user message_data new_uuid s =
     or_raise (build_MessageCreate message_data) s (\<lambda>message_create.
          if new_uuid \<in> msg_id ` set (messages s) then (Some IntegrityError, s)
          else
            let db_message = \<lparr>msg_id = new_uuid, sender_id = user,
                               receiver_id = mc_receiver_id message_create,
                               group_id = mc_group_id message_create,
                               content = mc_content message_create,
                               message_type = mc_message_type message_create,
                               file_url = mc_file_url message_create,
                               status = SENT\<rparr>;
                s1 = s\<lparr>messages := messages s @ [db_message]\<rparr>;
                response = MessageOut db_message
            in if truthy (receiver_id db_message) then
                 let s2 = snd (send_personal_message response (the (receiver_id db_message)) s1)
                 in or_raise (is_user_online (the (receiver_id db_message)) s2) s2 (\<lambda>online.
                      let s3 = (if online then update_status new_uuid DELIVERED s2 else s2)
                      in (None, snd (send_personal_message response user s3)))
               else if truthy (group_id db_message) then
                 let s2 = (case find (\<lambda>g. grp_id g = the (group_id db_message)) (groups s1) of
                             Some grp \<Rightarrow> fan_out response user (members_of (grp_id grp) s1) s1
                           | None \<Rightarrow> s1)
                 in (None, snd (send_personal_message response user s2))
               else (None, snd (send_personal_message response user s1)))"

text \<open>
  Lines 127-138, the branch for \<open>"typing"\<close>. The receiver id is used as read from the
  frame: a list or a dict is unhashable, so the lookup in the registry raises; any other
  value that is no string is in no registry.
\<close>

definition handle_typing :: "user_id \<Rightarrow> json \<Rightarrow> state \<Rightarrow> error option \<times> state" where
  "handle_typing user message_data s =
     or_raise (subscript message_data ''data'') s (\<lambda>d.
     or_raise (subscript d ''receiver_id'') s (\<lambda>receiver_id.
     or_raise (subscript d ''is_typing'') s (\<lambda>is_typing.
       case receiver_id of
         JStr r \<Rightarrow> (None, snd (send_personal_message (TypingOut user receiver_id is_typing) r s))
       | JArr _ \<Rightarrow> (Some TypeError, s)
       | JObj _ \<Rightarrow> (Some TypeError, s)
       | _ \<Rightarrow> (None, s))))"

text \<open>
  Lines 140-157, the branch for \<open>"read_receipt"\<close>. A message id that is a list or a dict
  cannot be bound as a query parameter; any other value that is no string matches no row.
\<close>

definition handle_read_receipt :: "user_id \<Rightarrow> json \<Rightarrow> state \<Rightarrow> error option \<times> state" where
  "handle_read_receipt user message_data s =
     or_raise (subscript message_data ''data'') s (\<lambda>d.
     or_raise (subscript d ''message_id'') s (\<lambda>message_id.
       case message_id of
         JStr i \<Rightarrow>
           (case find (\<lambda>m. msg_id m = i) (messages s) of
              None \<Rightarrow> (None, s)
            | Some message \<Rightarrow>
                if receiver_id message = Some user then
                  (None, snd (send_personal_message (ReadReceiptOut message_id user)
                                (sender_id message) (update_status i READ s)))
                else (None, s))
       | JArr _ \<Rightarrow> (Some StatementError, s)
       | JObj _ \<Rightarrow> (Some StatementError, s)
       | _ \<Rightarrow> (None, s)))"

text \<open>Lines 60-157: one pass through the body of the loop, for one received text.\<close>

definition process_frame :: "user_id \<Rightarrow> text_data \<Rightarrow> string \<Rightarrow> state \<Rightarrow> error option \<times> state" where
  "process_frame user data new_uuid s =
     or_raise (json_loads data) s (\<lambda>message_data.
     or_raise (subscript message_data ''type'') s (\<lambda>t.
       if t = JStr ''message'' then handle_message user message_data new_uuid s
       else if t = JStr ''typing'' then handle_typing user message_data s
       else if t = JStr ''read_receipt'' then handle_read_receipt user message_data s
       else (None, s)))"

text \<open>
  What \<open>receive_text()\<close> gives the loop: a text (paired with the uuid that the iteration
  would draw) or the exception \<open>WebSocketDisconnect\<close>.
\<close>

datatype inbound = Text text_data string | WebSocketDisconnect

text \<open>
  How the handler stands after the inbound events so far: still in \<open>receive_text()\<close>,
  left through \<open>except WebSocketDisconnect\<close>, or left through \<open>except Exception\<close>, which
  closes the socket with the given code.
\<close>

datatype session_end = Receiving | Disconnected | Closed nat

fun receive_loop :: "user_id \<Rightarrow> inbound list \<Rightarrow> state \<Rightarrow> session_end \<times> state" where
  "receive_loop user [] s = (Receiving, s)"
| "receive_loop user (WebSocketDisconnect # rest) s =
     (case disconnect user s of
        (Some e, s') \<Rightarrow> (Closed 1008, s')
      | (None, s') \<Rightarrow> (Disconnected, s'))"
| "receive_loop user (Text data new_uuid # rest) s =
     (case process_frame user data new_uuid s of
        (Some e, s') \<Rightarrow> (Closed 1008, s')
      | (None, s') \<Rightarrow> receive_loop user rest s')"

text \<open>
  \<open>websocket_endpoint\<close>: \<open>auth\<close> is the user that \<open>get_current_user(token)\<close> returns,
  or nothing where it raises.
\<close>

definition websocket_endpoint ::
  "websocket \<Rightarrow> user_id option \<Rightarrow> inbound list \<Rightarrow> state \<Rightarrow> session_end \<times> state" where
  "websocket_endpoint websocket auth inb s =
     (case auth of
        None \<Rightarrow> (Closed 1008, s)
      | Some user \<Rightarrow>
          (case connect websocket user s of
             (Some e, s1) \<Rightarrow> (Closed 1008, s1)
           | (None, s1) \<Rightarrow> receive_loop user inb s1))"

section \<open>History fetch (get\_chat\_history, chat/routes.py)\<close>

definition in_conversation :: "user_id \<Rightarrow> user_id \<Rightarrow> Message \<Rightarrow> bool" where
  "in_conversation current_user user_id m \<longleftrightarrow>
     (sender_id m = current_user \<and> receiver_id m = Some user_id) \<or>
     (sender_id m = user_id \<and> receiver_id m = Some current_user)"

text \<open>The page: newest first, \<open>skip\<close> rows dropped, at most \<open>limit\<close> rows kept.\<close>

definition history_page :: "user_id \<Rightarrow> user_id \<Rightarrow> nat \<Rightarrow> nat \<Rightarrow> state \<Rightarrow> Message list" where
  "history_page current_user user_id skip limit s =
     take limit (drop skip (rev (filter (in_conversation current_user user_id) (messages s))))"

definition to_mark :: "user_id \<Rightarrow> Message list \<Rightarrow> string list" where
  "to_mark current_user page =
     map msg_id (filter (\<lambda>m. receiver_id m = Some current_user \<and> status m \<noteq> READ) page)"

definition mark_read :: "string list \<Rightarrow> state \<Rightarrow> state" where
  "mark_read ids s =
     s\<lparr>messages := map (\<lambda>m. if msg_id m \<in> set ids then m\<lparr>status := READ\<rparr> else m) (messages s)\<rparr>"

text \<open>Returns the page as it reads after the loop, the total, and the new state.\<close>

definition get_chat_history ::
  "user_id \<Rightarrow> nat \<Rightarrow> nat \<Rightarrow> user_id \<Rightarrow> state \<Rightarrow> (Message list \<times> nat) \<times> state" where
  "get_chat_history user_id skip limit current_user s =
     (let page = history_page current_user user_id skip limit s;
          total = length (filter (in_conversation current_user user_id) (messages s));
          s' = mark_read (to_mark current_user page) s
      in ((history_page current_user user_id skip limit s', total), s'))"

section \<open>Member removal (remove\_group\_member, chat/group\_routes.py)\<close>

definition admin_count :: "string \<Rightarrow> state \<Rightarrow> nat" where
  "admin_count gid s =
     length (filter (\<lambda>m. gm_group_id m = gid \<and> is_admin m) (group_members s))"

definition remove_group_member :: "string \<Rightarrow> string \<Rightarrow> user_id \<Rightarrow> state \<Rightarrow> error + state" where
  "remove_group_member gid member_id current_user s =
     (case find (\<lambda>g. grp_id g = gid) (groups s) of
        None \<Rightarrow> Inl (HTTPException 404)
      | Some grp \<Rightarrow>
          let admin_row = find (\<lambda>m. gm_group_id m = gid \<and> gm_user_id m = current_user
                                      \<and> is_admin m) (group_members s);
              member = find (\<lambda>m. gm_id m = member_id \<and> gm_group_id m = gid) (group_members s)
          in (case member of
                None \<Rightarrow> Inl (HTTPException 404)
              | Some member \<Rightarrow>
                  if gm_user_id member \<noteq> current_user \<and> admin_row = None
                  then Inl (HTTPException 403)
                  else if is_admin member \<and> admin_count gid s \<le> 1
                  then Inl (HTTPException 400)
                  else Inr (s\<lparr>group_members :=
                               filter (\<lambda>m. gm_id m \<noteq> gm_id member) (group_members s)\<rparr>)))"

section \<open>The system as a machine\<close>

text \<open>
  One event is one handler step, run to its end before the next begins: a connection
  accepted for a user, a \<open>WebSocketDisconnect\<close> in the loop of a user's handler, one
  received text in it, a history fetch, a member removal. The events name the socket of
  the session they belong to; the code uses it only in \<open>connect\<close>.
\<close>

datatype event =
    Connect websocket user_id
  | Gone websocket user_id
  | Receive websocket user_id text_data string
  | History user_id user_id nat nat
  | RemoveMember string string user_id

fun step :: "state \<Rightarrow> event \<Rightarrow> state" where
  "step s (Connect ws u) = snd (connect ws u s)"
| "step s (Gone ws u) = snd (disconnect u s)"
| "step s (Receive ws u data new_uuid) = snd (process_frame u data new_uuid s)"
| "step s (History current_user user_id skip limit) =
     snd (get_chat_history user_id skip limit current_user s)"
| "step s (RemoveMember g member_id current_user) =
     (case remove_group_member g member_id current_user s of Inl e \<Rightarrow> s | Inr s' \<Rightarrow> s')"

fun run :: "state \<Rightarrow> event list \<Rightarrow> state" where
  "run s [] = s"
| "run s (e # es) = run (step s e) es"

text \<open>All the states a run passes through, the first one included.\<close>

fun trace :: "state \<Rightarrow> event list \<Rightarrow> state list" where
  "trace s [] = [s]"
| "trace s (e # es) = s # trace (step s e) es"

definition initial_state :: state where
  "initial_state = \<lparr>active_connections = Map.empty, online_users = {}, redis_up = True,
                     messages = [], groups = [], group_members = [], sent_frames = []\<rparr>"

text \<open>The order \<open>sent < delivered < read\<close>.\<close>

fun rank :: "MessageStatus \<Rightarrow> nat" where
  "rank SENT = 0"
| "rank DELIVERED = 1"
| "rank READ = 2"

text \<open>The stored status of the message with id \<open>i\<close>: 0 while no such row exists.\<close>

definition status_rank :: "string \<Rightarrow> state \<Rightarrow> nat" where
  "status_rank i s =
     (case find (\<lambda>m. msg_id m = i) (messages s) of
        None \<Rightarrow> 0
      | Some m \<Rightarrow> Suc (rank (status m)))"

definition agree :: "state \<Rightarrow> bool" where
  "agree s \<longleftrightarrow> online_users s = dom (active_connections s)"

text \<open>Two states with the same registry, the same presence set and the same Redis server.\<close>

definition same_presence :: "state \<Rightarrow> state \<Rightarrow> bool" where
  "same_presence s t \<longleftrightarrow> active_connections t = active_connections s \<and>
     online_users t = online_users s \<and> redis_up t = redis_up s"

(*LEMMAS*)

section \<open>What each operation leaves alone\<close>

lemma send_personal_message_fields:
  "active_connections (snd (send_personal_message f u s)) = active_connections s"
  "online_users (snd (send_personal_message f u s)) = online_users s"
  "redis_up (snd (send_personal_message f u s)) = redis_up s"
  "messages (snd (send_personal_message f u s)) = messages s"
  "groups (snd (send_personal_message f u s)) = groups s"
  "group_members (snd (send_personal_message f u s)) = group_members s"
  by (simp_all add: send_personal_message_def split: option.splits)

lemma update_status_fields:
  "active_connections (update_status i st s) = active_connections s"
  "online_users (update_status i st s) = online_users s"
  "redis_up (update_status i st s) = redis_up s"
  "groups (update_status i st s) = groups s"
  "group_members (update_status i st s) = group_members s"
  "sent_frames (update_status i st s) = sent_frames s"
  by (simp_all add: update_status_def)

lemma fan_out_fields:
  "active_connections (fan_out f u ms s) = active_connections s"
  "online_users (fan_out f u ms s) = online_users s"
  "redis_up (fan_out f u ms s) = redis_up s"
  "messages (fan_out f u ms s) = messages s"
  "groups (fan_out f u ms s) = groups s"
  "group_members (fan_out f u ms s) = group_members s"
  by (induction ms arbitrary: s) (simp_all add: send_personal_message_fields)

lemma handle_message_presence: "same_presence s (snd (handle_message u j n s))"
  by (auto simp: handle_message_def or_raise_def same_presence_def Let_def is_user_online_def
      send_personal_message_fields update_status_fields fan_out_fields
      split: sum.splits option.splits)

lemma handle_typing_presence: "same_presence s (snd (handle_typing u j s))"
  by (auto simp: handle_typing_def or_raise_def same_presence_def send_personal_message_fields
      split: sum.splits json.splits)

lemma handle_read_receipt_presence: "same_presence s (snd (handle_read_receipt u j s))"
  by (auto simp: handle_read_receipt_def or_raise_def same_presence_def
      send_personal_message_fields update_status_fields
      split: sum.splits json.splits option.splits)

lemma process_frame_presence: "same_presence s (snd (process_frame u d n s))"
  using handle_message_presence handle_typing_presence handle_read_receipt_presence
  by (auto simp: process_frame_def or_raise_def same_presence_def split: sum.splits)


section \<open>Presence and registry\<close>

lemma connect_up:
  "redis_up s \<Longrightarrow> connect ws u s =
     (None, s\<lparr>active_connections := (active_connections s)(u \<mapsto> ws),
              online_users := insert u (online_users s)\<rparr>)"
  by (simp add: connect_def set_user_online_def Let_def)

lemma disconnect_up:
  "redis_up s \<Longrightarrow> disconnect u s =
     (None, s\<lparr>active_connections := (active_connections s)(u := None),
              online_users := online_users s - {u}\<rparr>)"
  by (auto simp: disconnect_def set_user_offline_def Let_def domIff)

lemma get_chat_history_presence: "same_presence s (snd (get_chat_history v k l u s))"
  by (simp add: get_chat_history_def mark_read_def same_presence_def Let_def)

lemma remove_group_member_presence:
  "remove_group_member g m u s = Inr t \<Longrightarrow> same_presence s t"
  by (auto simp: remove_group_member_def same_presence_def Let_def
      split: option.splits if_splits)

lemma same_presence_agree:
  "same_presence s t \<Longrightarrow> redis_up s \<and> agree s \<Longrightarrow> redis_up t \<and> agree t"
  by (simp add: same_presence_def agree_def)

lemma step_agree: "redis_up s \<and> agree s \<Longrightarrow> redis_up (step s e) \<and> agree (step s e)"
proof (cases e)
  case (Connect ws u)
  assume "redis_up s \<and> agree s"
  then show ?thesis using Connect by (auto simp: connect_up agree_def)
next
  case (Gone ws u)
  assume "redis_up s \<and> agree s"
  then show ?thesis using Gone by (auto simp: disconnect_up agree_def)
next
  case (Receive ws u d n)
  assume "redis_up s \<and> agree s"
  then show ?thesis using Receive process_frame_presence [of s u d n]
    by (simp add: same_presence_agree)
next
  case (History c v k l)
  assume "redis_up s \<and> agree s"
  then show ?thesis using History get_chat_history_presence [of s v k l c]
    by (simp add: same_presence_agree)
next
  case (RemoveMember g m u)
  assume a: "redis_up s \<and> agree s"
  show ?thesis
  proof (cases "remove_group_member g m u s")
    case (Inl e)
    then show ?thesis using a RemoveMember by simp
  next
    case (Inr t)
    then show ?thesis using a RemoveMember remove_group_member_presence [OF Inr]
      by (simp add: same_presence_agree)
  qed
qed

lemma run_agree: "redis_up s \<and> agree s \<Longrightarrow> redis_up (run s evs) \<and> agree (run s evs)"
proof (induction evs arbitrary: s)
  case Nil
  then show ?case by simp
next
  case (Cons e evs)
  from Cons.prems have "redis_up (step s e) \<and> agree (step s e)" by (rule step_agree)
  then have "redis_up (run (step s e) evs) \<and> agree (run (step s e) evs)" by (rule Cons.IH)
  then show ?case by simp
qed

text \<open>
  Claim C2. Start where the presence set and the registry agree and the Redis server
  answers. After any sequence of events (connections, disconnections in any order and for
  any sockets, received frames, history fetches, member removals) they still agree, and
  \<open>is_user_online U\<close> answers true exactly when the registry has an entry for \<open>U\<close>.
\<close>

theorem presence_matches_registry:
  assumes "redis_up s" and "agree s"
  shows "agree (run s evs) \<and>
         is_user_online U (run s evs) = Inr (U \<in> dom (active_connections (run s evs)))"
proof -
  from assms have "redis_up (run s evs) \<and> agree (run s evs)"
    by (intro run_agree) simp
  then show ?thesis by (simp add: is_user_online_def agree_def)
qed

theorem presence_matches_registry_witness:
  "redis_up initial_state \<and> agree initial_state \<and>
   agree (run initial_state [Connect 1 ''alice'', Connect 2 ''alice'', Gone 1 ''alice'']) \<and>
   is_user_online ''alice'' (run initial_state [Connect 1 ''alice'', Connect 2 ''alice'', Gone 1 ''alice''])
     = Inr (''alice'' \<in> dom (active_connections
          (run initial_state [Connect 1 ''alice'', Connect 2 ''alice'', Gone 1 ''alice''])))"
proof -
  have a: "redis_up initial_state" by (simp add: initial_state_def)
  have b: "agree initial_state" by (simp add: initial_state_def agree_def)
  show ?thesis
    using a b presence_matches_registry [OF a b, of "[Connect 1 ''alice'', Connect 2 ''alice'', Gone 1 ''alice'']" "''alice''"]
    by simp
qed

text \<open>
  Claim C7, as the code has it. \<open>disconnect\<close> takes the user id only: it removes whatever
  socket is registered for the user and takes the user out of the presence set on every
  path, whether or not an entry was removed. After two connections of one user, the
  disconnection of the first session removes the entry of the second and leaves the
  user offline.
\<close>

theorem disconnect_is_unconditional:
  assumes "redis_up s"
  shows "fst (disconnect u s) = None \<and>
         active_connections (snd (disconnect u s)) = (active_connections s)(u := None) \<and>
         online_users (snd (disconnect u s)) = online_users s - {u} \<and>
         active_connections (run s [Connect ws1 u, Connect ws2 u, Gone ws1 u]) u = None \<and>
         u \<notin> online_users (run s [Connect ws1 u, Connect ws2 u, Gone ws1 u])"
  using assms by (simp add: connect_up disconnect_up)

theorem disconnect_is_unconditional_witness:
  "redis_up initial_state \<and>
   fst (disconnect ''alice'' initial_state) = None \<and>
   active_connections (snd (disconnect ''alice'' initial_state))
     = (active_connections initial_state)(''alice'' := None) \<and>
   online_users (snd (disconnect ''alice'' initial_state)) = online_users initial_state - {''alice''} \<and>
   active_connections (run initial_state [Connect 1 ''alice'', Connect 2 ''alice'', Gone 1 ''alice'']) ''alice'' = None \<and>
   ''alice'' \<notin> online_users (run initial_state [Connect 1 ''alice'', Connect 2 ''alice'', Gone 1 ''alice''])"
proof -
  have a: "redis_up initial_state" by (simp add: initial_state_def)
  show ?thesis using a disconnect_is_unconditional [OF a, of "''alice''" 1 2] by simp
qed

text \<open>
  The claim that a stale disconnect leaves the newer connection registered and the user
  online fails: socket 2 is no longer registered and the user is offline.
\<close>

theorem stale_disconnect_counterexample:
  "active_connections (run initial_state [Connect 1 ''alice'', Connect 2 ''alice'', Gone 1 ''alice''])
     ''alice'' \<noteq> Some 2 \<and>
   ''alice'' \<notin> online_users (run initial_state [Connect 1 ''alice'', Connect 2 ''alice'', Gone 1 ''alice''])"
  by (simp add: initial_state_def connect_up disconnect_up)

end
